theory Spec2Isabelle
  imports Complex_Main
begin

section \<open>Values and errors\<close>

text \<open>
  The backend is Python. Its floats are modelled as the real numbers (no rounding error,
  no NaN, no overflow), its timestamps as seconds on the real line, and the wall clock
  read by \<^verbatim>\<open>datetime.now\<close> is a parameter \<open>now\<close>. An exception is a value of
  \<open>py_error\<close>; a function that can raise returns \<open>py_error + 'a\<close>.
  \<open>TypeError\<close> is what \<^verbatim>\<open>math.radians\<close> raises on a value that is not a number
  and what \<^verbatim>\<open>json.dumps\<close> raises on a value it cannot serialize,
  \<open>SendError\<close> stands for any exception of a connection's \<^verbatim>\<open>send_text\<close> and
  \<open>DatabaseError\<close> for any exception of the repository.
\<close>

datatype py_error = ZeroDivisionError | QueueFull | AttributeError | TypeError | SendError | DatabaseError

text \<open>The scalar values of a decoded JSON object; \<open>PNone\<close> is \<^verbatim>\<open>None\<close>.\<close>

datatype pyval = PNone | PInt int | PFloat real | PStr string

fun truthy :: "pyval \<Rightarrow> bool" where
  "truthy PNone = False"
| "truthy (PInt n) = (n \<noteq> 0)"
| "truthy (PFloat x) = (x \<noteq> 0)"
| "truthy (PStr s) = (s \<noteq> [])"

section \<open>Dead reckoning: \<^verbatim>\<open>AnomalyDetector.calculate_predicted_pos\<close>\<close>

record position =
  pos_lat :: real
  pos_lon :: real

text \<open>\<^verbatim>\<open>math.radians\<close>.\<close>

definition radians :: "real \<Rightarrow> real" where
  "radians x = x * pi / 180"

text \<open>
  \<^verbatim>\<open>round(x, n)\<close> on a float: the value is rounded to \<open>n\<close> decimals, a tie going
  to the even neighbour.
\<close>

definition round_half_even :: "real \<Rightarrow> int" where
  "round_half_even y =
     (let f = \<lfloor>y\<rfloor>; d = y - of_int f
      in if d < 1 / 2 then f
         else if 1 / 2 < d then f + 1
         else if even f then f else f + 1)"

definition py_round :: "real \<Rightarrow> nat \<Rightarrow> real" where
  "py_round x n = of_int (round_half_even (x * 10 ^ n)) / 10 ^ n"

text \<open>A number with at most six decimals: \<open>x * 10^6\<close> is an integer.\<close>

definition six_decimals :: "real \<Rightarrow> bool" where
  "six_decimals x = (of_int \<lfloor>x * 10 ^ 6\<rfloor> = x * 10 ^ 6)"

text \<open>
  \<^verbatim>\<open>
  if speed < 0.5:
      return {"lat": lat, "lon": lon}
  hours_passed = (datetime.now(timezone.utc) - last_seen).total_seconds() / 3600.0
  dist_nm = speed * hours_passed
  d_lat = (dist_nm * math.cos(math.radians(course))) / 60.0
  d_lon = (dist_nm * math.sin(math.radians(course))) / (60.0 * math.cos(math.radians(lat)))
  return {"lat": round(lat + d_lat, 6), "lon": round(lon + d_lon, 6)}
  \<close>
  Python's \<^verbatim>\<open>/\<close> raises on a zero divisor; over the reals the divisor of \<open>d_lon\<close>
  is zero exactly at the poles.
\<close>

definition calculate_predicted_pos ::
  "real \<Rightarrow> real \<Rightarrow> real \<Rightarrow> real \<Rightarrow> real \<Rightarrow> real \<Rightarrow> py_error + position" where
  "calculate_predicted_pos now lat lon speed course last_seen =
     (if speed < 0.5 then Inr \<lparr>pos_lat = lat, pos_lon = lon\<rparr>
      else
        let hours_passed = (now - last_seen) / 3600;
            dist_nm = speed * hours_passed;
            d_lat = (dist_nm * cos (radians course)) / 60;
            divisor = 60 * cos (radians lat)
        in if divisor = 0 then Inl ZeroDivisionError
           else
             let d_lon = (dist_nm * sin (radians course)) / divisor
             in Inr \<lparr>pos_lat = py_round (lat + d_lat) 6, pos_lon = py_round (lon + d_lon) 6\<rparr>)"

text \<open>
  The function is declared with \<open>course: float\<close>, and Python does not check it. What
  \<^verbatim>\<open>math.radians\<close> makes of its argument: a number is taken as a float, anything
  else raises TypeError.
\<close>

definition as_float :: "pyval \<Rightarrow> py_error + real" where
  "as_float x =
     (case x of
        PInt n \<Rightarrow> Inr (of_int n)
      | PFloat r \<Rightarrow> Inr r
      | _ \<Rightarrow> Inl TypeError)"

text \<open>
  The same function, called with a course of any value. The first statement does not
  read the course; past it, \<^verbatim>\<open>math.cos(math.radians(course))\<close> in \<open>d_lat\<close> is the
  first use, before the division of \<open>d_lon\<close>.
\<close>

definition calculate_predicted_pos_any ::
  "real \<Rightarrow> real \<Rightarrow> real \<Rightarrow> real \<Rightarrow> pyval \<Rightarrow> real \<Rightarrow> py_error + position" where
  "calculate_predicted_pos_any now lat lon speed course last_seen =
     (if speed < 0.5 then Inr \<lparr>pos_lat = lat, pos_lon = lon\<rparr>
      else
        case as_float course of
          Inl e \<Rightarrow> Inl e
        | Inr c \<Rightarrow> calculate_predicted_pos now lat lon speed c last_seen)"

section \<open>Anomaly aggregation: \<^verbatim>\<open>AnomalyDetector.get_enhanced_anomalies\<close>\<close>

text \<open>
  A row of \<^verbatim>\<open>get_inactive_vessels\<close>. The course is read with
  \<^verbatim>\<open>v.get('course', 0)\<close>: the key may be absent (\<open>None\<close>, as in the rows of the
  repository's test), or present with any value, \<^verbatim>\<open>None\<close> included
  (\<open>Some PNone\<close>, which is what the query returns for a row whose course is NULL).
  Every other key is read with \<^verbatim>\<open>v[...]\<close> and holds a float.
\<close>

record inactive_vessel =
  iv_mmsi :: pyval
  iv_name :: string
  iv_lat :: real
  iv_lon :: real
  iv_speed :: real
  iv_course :: "pyval option"
  iv_last_seen :: real

record alert =
  a_mmsi :: pyval
  a_name :: string
  a_speed :: real
  a_last_seen :: real
  a_last_pos :: position
  a_predicted_pos :: position

record cluster =
  center :: position
  affected_mmsi :: "pyval list"
  cluster_type :: string

record anomaly_report =
  alerts :: "alert list"
  clusters :: "cluster list"

text \<open>
  \<^verbatim>\<open>
  alerts = []
  for v in vessels:
      predicted = self.calculate_predicted_pos(
          v['lat'], v['lon'], v['speed'], v.get('course', 0), v['last_seen'])
      alerts.append({"mmsi": v['mmsi'], "name": v['name'], "speed": v['speed'],
                     "last_seen": v['last_seen'],
                     "last_pos": {"lat": v['lat'], "lon": v['lon']},
                     "predicted_pos": predicted})
  \<close>
\<close>

fun alerts_loop :: "real \<Rightarrow> inactive_vessel list \<Rightarrow> alert list \<Rightarrow> py_error + alert list" where
  "alerts_loop now [] acc = Inr acc"
| "alerts_loop now (v # vs) acc =
     (case calculate_predicted_pos_any now (iv_lat v) (iv_lon v) (iv_speed v)
             (case iv_course v of None \<Rightarrow> PInt 0 | Some c \<Rightarrow> c) (iv_last_seen v) of
        Inl e \<Rightarrow> Inl e
      | Inr predicted \<Rightarrow>
          alerts_loop now vs
            (acc @ [\<lparr>a_mmsi = iv_mmsi v, a_name = iv_name v, a_speed = iv_speed v,
                     a_last_seen = iv_last_seen v,
                     a_last_pos = \<lparr>pos_lat = iv_lat v, pos_lon = iv_lon v\<rparr>,
                     a_predicted_pos = predicted\<rparr>]))"

text \<open>
  \<^verbatim>\<open>
  dist = math.sqrt((a1['last_pos']['lat'] - a2['last_pos']['lat']) ** 2 +
                   (a1['last_pos']['lon'] - a2['last_pos']['lon']) ** 2)
  \<close>
\<close>

definition dist_deg :: "alert \<Rightarrow> alert \<Rightarrow> real" where
  "dist_deg a1 a2 =
     sqrt ((pos_lat (a_last_pos a1) - pos_lat (a_last_pos a2))\<^sup>2 +
           (pos_lon (a_last_pos a1) - pos_lon (a_last_pos a2))\<^sup>2)"

text \<open>
  The inner loop \<^verbatim>\<open>for j, a2 in enumerate(alerts)\<close>, with \<open>nearby\<close> as the
  accumulator.
\<close>

fun nearby_loop :: "nat \<Rightarrow> alert \<Rightarrow> (nat \<times> alert) list \<Rightarrow> pyval list \<Rightarrow> pyval list" where
  "nearby_loop i a1 [] nearby = nearby"
| "nearby_loop i a1 ((j, a2) # rest) nearby =
     (if i = j then nearby_loop i a1 rest nearby
      else if dist_deg a1 a2 < 0.1 then nearby_loop i a1 rest (nearby @ [a_mmsi a2])
      else nearby_loop i a1 rest nearby)"

text \<open>The outer loop \<^verbatim>\<open>for i, a1 in enumerate(alerts)\<close>.\<close>

fun clusters_loop :: "alert list \<Rightarrow> (nat \<times> alert) list \<Rightarrow> cluster list \<Rightarrow> cluster list" where
  "clusters_loop all_alerts [] acc = acc"
| "clusters_loop all_alerts ((i, a1) # rest) acc =
     (let nearby = nearby_loop i a1 (enumerate 0 all_alerts) []
      in if 2 \<le> length nearby
         then clusters_loop all_alerts rest
                (acc @ [\<lparr>center = a_last_pos a1, affected_mmsi = a_mmsi a1 # nearby,
                         cluster_type = ''POTENTIAL_JAMMING_ZONE''\<rparr>])
         else clusters_loop all_alerts rest acc)"

text \<open>
  The rows returned by the repository are the parameter \<open>vessels\<close>.
\<close>

definition get_enhanced_anomalies :: "real \<Rightarrow> inactive_vessel list \<Rightarrow> py_error + anomaly_report" where
  "get_enhanced_anomalies now vessels =
     (if vessels = [] then Inr \<lparr>alerts = [], clusters = []\<rparr>
      else
        case alerts_loop now vessels [] of
          Inl e \<Rightarrow> Inl e
        | Inr als \<Rightarrow> Inr \<lparr>alerts = als, clusters = clusters_loop als (enumerate 0 als) []\<rparr>)"

text \<open>
  The claim's words, on the rows: the other rows within distance 0.1 of row \<open>i\<close>, by
  index and in list order.
\<close>

definition spec_neighbours :: "inactive_vessel list \<Rightarrow> nat \<Rightarrow> nat list" where
  "spec_neighbours vessels i =
     filter (\<lambda>j. j \<noteq> i \<and>
                 sqrt ((iv_lat (vessels ! i) - iv_lat (vessels ! j))\<^sup>2 +
                       (iv_lon (vessels ! i) - iv_lon (vessels ! j))\<^sup>2) < 0.1)
       [0..<length vessels]"

definition spec_cluster :: "inactive_vessel list \<Rightarrow> nat \<Rightarrow> cluster" where
  "spec_cluster vessels i =
     \<lparr>center = \<lparr>pos_lat = iv_lat (vessels ! i), pos_lon = iv_lon (vessels ! i)\<rparr>,
      affected_mmsi = iv_mmsi (vessels ! i) # map (\<lambda>j. iv_mmsi (vessels ! j)) (spec_neighbours vessels i),
      cluster_type = ''POTENTIAL_JAMMING_ZONE''\<rparr>"

section \<open>Broadcast hub: \<^verbatim>\<open>ConnectionManager\<close>\<close>

datatype log_entry = Info string | Warning string | Error string

text \<open>
  The manager's list of connections, together with what a run leaves behind: the texts
  that \<^verbatim>\<open>send_text\<close> delivered, in order, and the log.
\<close>

record 'c manager =
  active_connections :: "'c list"
  delivered :: "('c \<times> string) list"
  manager_log :: "log_entry list"

text \<open>
  \<^verbatim>\<open>
  if websocket in self.active_connections:
      self.active_connections.remove(websocket)
      logger.info(...)
  \<close>
\<close>

definition disconnect :: "'c manager \<Rightarrow> 'c \<Rightarrow> 'c manager" where
  "disconnect m websocket =
     (if websocket \<in> set (active_connections m)
      then m\<lparr>active_connections := remove1 websocket (active_connections m),
             manager_log := manager_log m @ [Info ''Client disconnected.'']\<rparr>
      else m)"

text \<open>
  \<^verbatim>\<open>
  try:
      await websocket.send_text(message)
  except Exception as e:
      logger.error(...)
      self.disconnect(websocket)
  \<close>
  The transport is the parameter \<open>send_text\<close>: \<open>None\<close> when the send completes, the
  exception when it raises.
\<close>

definition send_safe ::
  "('c \<Rightarrow> string \<Rightarrow> py_error option) \<Rightarrow> 'c manager \<Rightarrow> 'c \<Rightarrow> string \<Rightarrow> 'c manager" where
  "send_safe send_text m websocket message =
     (case send_text websocket message of
        None \<Rightarrow> m\<lparr>delivered := delivered m @ [(websocket, message)]\<rparr>
      | Some e \<Rightarrow>
          disconnect (m\<lparr>manager_log := manager_log m @ [Error ''Failed to send message to client'']\<rparr>)
            websocket)"

text \<open>
  \<^verbatim>\<open>
  if not self.active_connections:
      return
  data = json.dumps(message)
  tasks = []
  for connection in self.active_connections:
      tasks.append(self._send_safe(connection, data))
  if tasks:
      await asyncio.gather(*tasks)
  \<close>
  The tasks are created from the connection list as it is before any send runs, and
  \<^verbatim>\<open>gather\<close> starts them in list order; the model runs them one after the other in
  that order. \<^verbatim>\<open>json.dumps\<close> is the parameter \<open>dumps\<close>; an exception it raises
  leaves \<open>broadcast\<close>.
\<close>

fun gather :: "('c \<Rightarrow> string \<Rightarrow> py_error option) \<Rightarrow> 'c manager \<Rightarrow> 'c list \<Rightarrow> string \<Rightarrow> 'c manager" where
  "gather send_text m [] data = m"
| "gather send_text m (connection # tasks) data =
     gather send_text (send_safe send_text m connection data) tasks data"

definition broadcast ::
  "('c \<Rightarrow> string \<Rightarrow> py_error option) \<Rightarrow> ('m \<Rightarrow> py_error + string) \<Rightarrow> 'c manager \<Rightarrow> 'm
     \<Rightarrow> py_error + 'c manager" where
  "broadcast send_text dumps m message =
     (if active_connections m = [] then Inr m
      else
        case dumps message of
          Inl e \<Rightarrow> Inl e
        | Inr data \<Rightarrow> Inr (gather send_text m (active_connections m) data))"

section \<open>Repository: \<^verbatim>\<open>AISRepository.update_vessels_batch\<close>\<close>

text \<open>The normalized report built by the feed client (a dict with these seven keys).\<close>

record vessel_data =
  vd_mmsi :: pyval
  vd_name :: string
  vd_lat :: pyval
  vd_lon :: pyval
  vd_speed :: pyval
  vd_course :: pyval
  vd_vessel_type :: pyval

text \<open>
  A row of table \<^verbatim>\<open>vessels\<close>, without its key. The geography point
  \<^verbatim>\<open>ST_SetSRID(ST_MakePoint(lon, lat), 4326)\<close> is kept as the pair of its arguments.
\<close>

record vessel_row =
  row_name :: string
  row_last_pos :: "pyval \<times> pyval"
  row_speed :: pyval
  row_course :: pyval
  row_type :: pyval
  row_last_seen :: real

type_synonym vessels_table = "pyval \<rightharpoonup> vessel_row"

text \<open>
  One execution of the statement, for one parameter tuple:
  \<^verbatim>\<open>
  INSERT INTO vessels (mmsi, name, last_pos, speed, course, type, last_seen)
  VALUES (%s, %s, ST_SetSRID(ST_MakePoint(%s, %s), 4326)::geography, %s, %s, %s, NOW())
  ON CONFLICT (mmsi) DO UPDATE SET
      last_pos = EXCLUDED.last_pos, speed = EXCLUDED.speed,
      course = EXCLUDED.course, last_seen = NOW();
  \<close>
  \<open>now\<close> is the value of \<^verbatim>\<open>NOW()\<close>.
\<close>

definition upsert_vessel :: "real \<Rightarrow> vessels_table \<Rightarrow> vessel_data \<Rightarrow> vessels_table" where
  "upsert_vessel now table v =
     (case table (vd_mmsi v) of
        None \<Rightarrow>
          table(vd_mmsi v \<mapsto>
            \<lparr>row_name = vd_name v, row_last_pos = (vd_lon v, vd_lat v), row_speed = vd_speed v,
             row_course = vd_course v, row_type = vd_vessel_type v, row_last_seen = now\<rparr>)
      | Some old \<Rightarrow>
          table(vd_mmsi v \<mapsto>
            old\<lparr>row_last_pos := (vd_lon v, vd_lat v), row_speed := vd_speed v,
                row_course := vd_course v, row_last_seen := now\<rparr>))"

text \<open>
  \<^verbatim>\<open>
  if not vessels_list:
      return
  ... await cur.executemany(<statement>, data_tuples)
  \<close>
  \<^verbatim>\<open>executemany\<close> runs the statement once per tuple, in list order.
\<close>

definition update_vessels_batch :: "real \<Rightarrow> vessels_table \<Rightarrow> vessel_data list \<Rightarrow> vessels_table" where
  "update_vessels_batch now table vessels_list =
     (if vessels_list = [] then table else foldl (upsert_vessel now) table vessels_list)"

section \<open>Feed client: \<^verbatim>\<open>start_ais_ingestion\<close>\<close>

subsection \<open>Producer\<close>

text \<open>
  A decoded JSON object is an association list. The feed message is read through
  \<^verbatim>\<open>msg.get("MetaData", {})\<close>, \<^verbatim>\<open>msg.get("Message", {}).get("PositionReport")\<close>,
  \<^verbatim>\<open>msg.get("Message", {}).get("StandardClassBPositionReport")\<close> and
  \<^verbatim>\<open>msg.get("MessageType", "Unknown")\<close>. An object that is present is a JSON
  object; an absent one is \<open>None\<close>.
\<close>

type_synonym json_obj = "(string \<times> pyval) list"

record raw_message =
  MetaData :: "json_obj option"
  PositionReport :: "json_obj option"
  StandardClassBPositionReport :: "json_obj option"
  MessageType :: "pyval option"

text \<open>\<^verbatim>\<open>d.get(key, default)\<close>; \<^verbatim>\<open>d.get(key)\<close> is \<open>get d key PNone\<close>.\<close>

definition get :: "json_obj \<Rightarrow> string \<Rightarrow> pyval \<Rightarrow> pyval" where
  "get d key dflt = (case map_of d key of None \<Rightarrow> dflt | Some v \<Rightarrow> v)"

text \<open>\<^verbatim>\<open>a or b or {}\<close> on two optional objects: the first that is present and non-empty.\<close>

definition or_else :: "json_obj option \<Rightarrow> json_obj option \<Rightarrow> json_obj" where
  "or_else a b =
     (case a of
        Some (x # xs) \<Rightarrow> x # xs
      | _ \<Rightarrow> (case b of Some (y # ys) \<Rightarrow> y # ys | _ \<Rightarrow> []))"

text \<open>
  \<^verbatim>\<open>str.strip()\<close>, for strings of ASCII characters: the white space is the six
  characters from tab to carriage return and space, and the four separators
  \<open>0x1C\<close> to \<open>0x1F\<close>.
\<close>

definition is_space :: "char \<Rightarrow> bool" where
  "is_space c =
     (c \<in> set [CHR '' '', CHR 0x09, CHR 0x0A, CHR 0x0B, CHR 0x0C, CHR 0x0D,
                CHR 0x1C, CHR 0x1D, CHR 0x1E, CHR 0x1F])"

definition strip :: "string \<Rightarrow> string" where
  "strip s = rev (dropWhile is_space (rev (dropWhile is_space s)))"

text \<open>
  The normalization. \<^verbatim>\<open>meta.get("ShipName", "Unknown").strip()\<close> raises
  AttributeError when the name is present and not a string.
\<close>

definition normalize :: "raw_message \<Rightarrow> py_error + vessel_data" where
  "normalize msg =
     (let meta = (case MetaData msg of None \<Rightarrow> [] | Some d \<Rightarrow> d);
          report = or_else (PositionReport msg) (StandardClassBPositionReport msg)
      in case get meta ''ShipName'' (PStr ''Unknown'') of
           PStr s \<Rightarrow>
             Inr \<lparr>vd_mmsi = get meta ''MMSI'' PNone,
                  vd_name = strip s,
                  vd_lat = get meta ''latitude'' PNone,
                  vd_lon = get meta ''longitude'' PNone,
                  vd_speed = get report ''Sog'' (PInt 0),
                  vd_course = get report ''Cog'' (PInt 0),
                  vd_vessel_type = (case MessageType msg of None \<Rightarrow> PStr ''Unknown'' | Some t \<Rightarrow> t)\<rparr>
         | _ \<Rightarrow> Inl AttributeError)"

text \<open>
  \<^verbatim>\<open>asyncio.Queue(maxsize=5000).put_nowait\<close>: the queue is full when
  \<open>maxsize > 0\<close> and it holds \<open>maxsize\<close> items or more.
\<close>

definition maxsize :: nat where
  "maxsize = 5000"

definition put_nowait :: "'a list \<Rightarrow> 'a \<Rightarrow> py_error + 'a list" where
  "put_nowait q item =
     (if 0 < maxsize \<and> maxsize \<le> length q then Inl QueueFull else Inr (q @ [item]))"

text \<open>
  What the producer and the consumer share and leave behind: the queue, the consumer's
  buffer and counter, the calls issued to the geofence check, the hub and the
  repository, and the log.
\<close>

datatype zone = Zone (zone_name: string) (zone_severity: string)

datatype message = ALERT zone string | VESSEL_UPDATE "vessel_data list"

datatype event =
    CheckGeofence pyval pyval
  | Broadcast message
  | UpdateVesselsBatch "vessel_data list"

record ingestion =
  queue :: "vessel_data list"
  buffer :: "vessel_data list"
  total_processed :: nat
  trace :: "event list"
  logger :: "log_entry list"

text \<open>
  \<^verbatim>\<open>
  if vessel_data["mmsi"] and vessel_data["lat"] is not None:
      try:
          queue.put_nowait(vessel_data)
      except asyncio.QueueFull:
          logger.warning("Processing queue full! Data loss may occur.")
  \<close>
\<close>

definition enqueue :: "vessel_data \<Rightarrow> ingestion \<Rightarrow> ingestion" where
  "enqueue vd st =
     (if truthy (vd_mmsi vd) \<and> vd_lat vd \<noteq> PNone
      then (case put_nowait (queue st) vd of
              Inr q \<Rightarrow> st\<lparr>queue := q\<rparr>
            | Inl e \<Rightarrow> st\<lparr>logger := logger st @ [Warning ''Processing queue full! Data loss may occur.'']\<rparr>)
      else st)"

text \<open>
  The body of \<^verbatim>\<open>async for message in ws\<close> for one message. An error leaves the loop
  (the connection is dropped and reopened after 5 s).
\<close>

definition on_message :: "raw_message \<Rightarrow> ingestion \<Rightarrow> py_error + ingestion" where
  "on_message msg st =
     (case normalize msg of
        Inl e \<Rightarrow> Inl e
      | Inr vd \<Rightarrow> Inr (enqueue vd st))"

subsection \<open>Consumer\<close>

text \<open>
  \<^verbatim>\<open>AnomalyDetector.check_geofence_violation\<close>: a failing repository query is logged
  and answered \<^verbatim>\<open>None\<close>. The query \<^verbatim>\<open>repo.check_point_in_geofence\<close> is a parameter.
\<close>

definition check_geofence_violation ::
  "(pyval \<Rightarrow> pyval \<Rightarrow> py_error + zone option) \<Rightarrow> pyval \<Rightarrow> pyval \<Rightarrow> zone option" where
  "check_geofence_violation check_point_in_geofence la lo =
     (case check_point_in_geofence la lo of Inl e \<Rightarrow> None | Inr z \<Rightarrow> z)"

text \<open>
  \<^verbatim>\<open>
  for v in vessel_batch:
      violation = await detector.check_geofence_violation(v['lat'], v['lon'])
      if violation:
          await manager.broadcast({"type": "ALERT", "data": violation, "vessel": v['name']})
  await manager.broadcast({"type": "VESSEL_UPDATE", "data": vessel_batch})
  await repo.update_vessels_batch(vessel_batch)
  \<close>
  Each call is appended to the trace when it is issued. The messages are built from JSON
  scalars and strings, so \<^verbatim>\<open>broadcast\<close> returns; the repository call is the last
  statement and its outcome (parameter \<open>persist\<close>) is the outcome of the function.
\<close>

fun geofence_loop ::
  "(pyval \<Rightarrow> pyval \<Rightarrow> py_error + zone option) \<Rightarrow> vessel_data list \<Rightarrow> event list \<Rightarrow> event list" where
  "geofence_loop cpg [] tr = tr"
| "geofence_loop cpg (v # vs) tr =
     (let tr1 = tr @ [CheckGeofence (vd_lat v) (vd_lon v)]
      in case check_geofence_violation cpg (vd_lat v) (vd_lon v) of
           Some violation \<Rightarrow> geofence_loop cpg vs (tr1 @ [Broadcast (ALERT violation (vd_name v))])
         | None \<Rightarrow> geofence_loop cpg vs tr1)"

definition process_and_flush ::
  "(pyval \<Rightarrow> pyval \<Rightarrow> py_error + zone option) \<Rightarrow> (vessel_data list \<Rightarrow> py_error option)
     \<Rightarrow> vessel_data list \<Rightarrow> event list \<Rightarrow> event list \<times> py_error option" where
  "process_and_flush cpg persist vessel_batch tr =
     (let tr1 = geofence_loop cpg vessel_batch tr;
          tr2 = tr1 @ [Broadcast (VESSEL_UPDATE vessel_batch)];
          tr3 = tr2 @ [UpdateVesselsBatch vessel_batch]
      in (tr3, persist vessel_batch))"

text \<open>
  One iteration of \<^verbatim>\<open>while True\<close> in \<^verbatim>\<open>db_writer\<close>. \<^verbatim>\<open>wait_for(queue.get(), 5.0)\<close>
  returns the head of a non-empty queue; on an empty queue the model takes the timeout.
  An exception of \<^verbatim>\<open>process_and_flush\<close> is logged and the iteration ends there, the
  buffer as it was.
\<close>

definition batch_size :: nat where
  "batch_size = 50"

definition flush ::
  "(pyval \<Rightarrow> pyval \<Rightarrow> py_error + zone option) \<Rightarrow> (vessel_data list \<Rightarrow> py_error option)
     \<Rightarrow> bool \<Rightarrow> ingestion \<Rightarrow> ingestion" where
  "flush cpg persist with_info st =
     (case process_and_flush cpg persist (buffer st) (trace st) of
        (tr, Some e) \<Rightarrow> st\<lparr>trace := tr, logger := logger st @ [Error ''Consumer error'']\<rparr>
      | (tr, None) \<Rightarrow>
          st\<lparr>trace := tr,
             total_processed := total_processed st + length (buffer st),
             logger := (if with_info then logger st @ [Info ''Batch Flush''] else logger st),
             buffer := []\<rparr>)"

definition db_writer_iteration ::
  "(pyval \<Rightarrow> pyval \<Rightarrow> py_error + zone option) \<Rightarrow> (vessel_data list \<Rightarrow> py_error option)
     \<Rightarrow> ingestion \<Rightarrow> ingestion" where
  "db_writer_iteration cpg persist st =
     (case queue st of
        [] \<Rightarrow> if buffer st \<noteq> [] then flush cpg persist False st else st
      | data # rest \<Rightarrow>
          let st1 = st\<lparr>queue := rest, buffer := buffer st @ [data]\<rparr>
          in if batch_size \<le> length (buffer st1) then flush cpg persist True st1 else st1)"

section \<open>Auxiliary notions for the proofs\<close>

text \<open>The call of the predictor that \<open>alerts_loop\<close> makes for a row.\<close>

abbreviation predict :: "real \<Rightarrow> inactive_vessel \<Rightarrow> py_error + position" where
  "predict now v \<equiv>
     calculate_predicted_pos_any now (iv_lat v) (iv_lon v) (iv_speed v)
       (case iv_course v of None \<Rightarrow> PInt 0 | Some c \<Rightarrow> c) (iv_last_seen v)"

text \<open>The test of the inner loop, and the indices that pass it.\<close>

definition near :: "alert \<Rightarrow> alert \<Rightarrow> bool" where
  "near a1 a2 = (dist_deg a1 a2 < 0.1)"

definition near_idx :: "alert list \<Rightarrow> nat \<Rightarrow> nat list" where
  "near_idx als i = filter (\<lambda>j. j \<noteq> i \<and> near (als ! i) (als ! j)) [0..<length als]"

section \<open>Example data\<close>

text \<open>The three rows of the repository's clustering test, last seen at time 0.\<close>

definition test_vessel_1 :: inactive_vessel where
  "test_vessel_1 = \<lparr>iv_mmsi = PStr ''1'', iv_name = ''S1'', iv_lat = 50, iv_lon = 10,
     iv_speed = 10, iv_course = None, iv_last_seen = 0\<rparr>"

definition test_vessel_2 :: inactive_vessel where
  "test_vessel_2 = \<lparr>iv_mmsi = PStr ''2'', iv_name = ''S2'', iv_lat = 50.01, iv_lon = 10.01,
     iv_speed = 10, iv_course = None, iv_last_seen = 0\<rparr>"

definition test_vessel_3 :: inactive_vessel where
  "test_vessel_3 = \<lparr>iv_mmsi = PStr ''3'', iv_name = ''S3'', iv_lat = 50.02, iv_lon = 10.02,
     iv_speed = 10, iv_course = None, iv_last_seen = 0\<rparr>"

text \<open>
  A row at 20 knots without the course key, and the same row as the query returns it
  when the stored course is NULL.
\<close>

definition dark_vessel :: inactive_vessel where
  "dark_vessel = \<lparr>iv_mmsi = PStr ''9'', iv_name = ''DARK'', iv_lat = 60, iv_lon = 10,
     iv_speed = 20, iv_course = None, iv_last_seen = 0\<rparr>"

definition null_course_vessel :: inactive_vessel where
  "null_course_vessel = \<lparr>iv_mmsi = PStr ''9'', iv_name = ''DARK'', iv_lat = 60, iv_lon = 10,
     iv_speed = 20, iv_course = Some PNone, iv_last_seen = 0\<rparr>"

text \<open>A stored row and a later report of the same vessel under another name and type.\<close>

definition stored_row :: vessel_row where
  "stored_row = \<lparr>row_name = ''OLD NAME'', row_last_pos = (PFloat 10, PFloat 60), row_speed = PFloat 0,
     row_course = PFloat 0, row_type = PStr ''PositionReport'', row_last_seen = 0\<rparr>"

definition new_report :: vessel_data where
  "new_report = \<lparr>vd_mmsi = PInt 257000000, vd_name = ''NEW NAME'', vd_lat = PFloat 61,
     vd_lon = PFloat 11, vd_speed = PFloat 5, vd_course = PFloat 90,
     vd_vessel_type = PStr ''StandardClassBPositionReport''\<rparr>"

text \<open>A feed message with every field, and its normalized report.\<close>

definition feed_message :: raw_message where
  "feed_message =
     \<lparr>MetaData = Some [(''MMSI'', PInt 257000000), (''ShipName'', PStr ''NORDIC  ''),
                       (''latitude'', PFloat 61), (''longitude'', PFloat 11)],
      PositionReport = Some [(''Sog'', PFloat 5), (''Cog'', PFloat 90)],
      StandardClassBPositionReport = None,
      MessageType = Some (PStr ''PositionReport'')\<rparr>"

definition feed_report :: vessel_data where
  "feed_report = \<lparr>vd_mmsi = PInt 257000000, vd_name = ''NORDIC'', vd_lat = PFloat 61,
     vd_lon = PFloat 11, vd_speed = PFloat 5, vd_course = PFloat 90,
     vd_vessel_type = PStr ''PositionReport''\<rparr>"

text \<open>
  A feed message whose metadata has an identifier and a latitude and no longitude, its
  normalized report, and the state of an idle pipeline.
\<close>

definition message_without_longitude :: raw_message where
  "message_without_longitude =
     \<lparr>MetaData = Some [(''MMSI'', PInt 257000000), (''ShipName'', PStr ''NORDIC''),
                       (''latitude'', PFloat 60)],
      PositionReport = Some [(''Sog'', PFloat 12), (''Cog'', PFloat 90)],
      StandardClassBPositionReport = None,
      MessageType = Some (PStr ''PositionReport'')\<rparr>"

definition report_without_longitude :: vessel_data where
  "report_without_longitude = \<lparr>vd_mmsi = PInt 257000000, vd_name = ''NORDIC'', vd_lat = PFloat 60,
     vd_lon = PNone, vd_speed = PFloat 12, vd_course = PFloat 90,
     vd_vessel_type = PStr ''PositionReport''\<rparr>"

definition idle :: ingestion where
  "idle = \<lparr>queue = [], buffer = [], total_processed = 0, trace = [], logger = []\<rparr>"

section \<open>Dead reckoning: properties\<close>

subsection \<open>Helper facts\<close>

lemma radians_0: "radians 0 = 0"
  by (simp add: radians_def)

lemma cos_radians_pos: "- 90 < x \<Longrightarrow> x < 90 \<Longrightarrow> 0 < cos (radians x)"
proof -
  assume a: "- 90 < x" and b: "x < 90"
  have "(- 90) * pi < x * pi" using a pi_gt_zero by (rule mult_strict_right_mono)
  moreover have "x * pi < 90 * pi" using b pi_gt_zero by (rule mult_strict_right_mono)
  ultimately show ?thesis
    by (intro cos_gt_zero_pi) (simp_all add: radians_def)
qed

lemma six_decimals_py_round: "six_decimals (py_round x 6)"
  by (simp add: six_decimals_def py_round_def)

subsection \<open>Slow vessels\<close>

text \<open>
  C4. Below 0.5 knots the input position is returned as it is, whatever the course, the
  last-seen time and the current time.
\<close>

theorem predicted_pos_slow_unchanged:
  "speed < 0.5 \<Longrightarrow>
   calculate_predicted_pos now lat lon speed course last_seen =
     Inr \<lparr>pos_lat = lat, pos_lon = lon\<rparr>"
  by (simp add: calculate_predicted_pos_def)

theorem predicted_pos_slow_unchanged_witness:
  "(0.4::real) < 0.5 \<and>
   calculate_predicted_pos 7200 60 10 0.4 90 0 = Inr \<lparr>pos_lat = 60, pos_lon = 10\<rparr>"
  using predicted_pos_slow_unchanged [of "0.4" 7200 60 10 90 0] by simp


subsection \<open>The formula\<close>

text \<open>
  C5, as the code has it. At 0.5 knots or more, and where the divisor \<open>60 * cos lat\<close> is
  not zero, the result is the dead-reckoning formula with each coordinate rounded to six
  decimals: latitude \<open>lat + (speed * hours * cos course) / 60\<close>, longitude
  \<open>lon + (speed * hours * sin course) / (60 * cos lat)\<close>, where \<open>hours\<close> is
  \<open>(now - last_seen) / 3600\<close> and the angles are taken in radians. At 20 knots, course 0
  and one hour from (60, 10) this is (60.333333, 10).
\<close>

theorem predicted_pos_formula_rounded:
  "0.5 \<le> speed \<Longrightarrow> cos (radians lat) \<noteq> 0 \<Longrightarrow>
   calculate_predicted_pos now lat lon speed course last_seen =
     Inr \<lparr>pos_lat = py_round (lat + (speed * ((now - last_seen) / 3600) * cos (radians course)) / 60) 6,
          pos_lon = py_round (lon + (speed * ((now - last_seen) / 3600) * sin (radians course)) /
                                     (60 * cos (radians lat))) 6\<rparr>"
  by (simp add: calculate_predicted_pos_def Let_def)

theorem predicted_pos_formula_rounded_witness:
  "(0.5::real) \<le> 20 \<and> cos (radians 60) \<noteq> 0 \<and>
   calculate_predicted_pos 3600 60 10 20 0 0 = Inr \<lparr>pos_lat = 60.333333, pos_lon = 10\<rparr>"
  using predicted_pos_formula_rounded [where speed = 20 and lat = 60 and lon = 10 and now = 3600 and last_seen = 0 and course = 0]
  by (simp add: radians_def py_round_def round_half_even_def Let_def cos_60)


text \<open>
  The unrounded formula is not what is returned: at 1 knot, course 0, one hour from
  (0, 0) the latitude returned is 0.016667, not 1/60.
\<close>

theorem predicted_pos_unrounded_counterexample:
  "calculate_predicted_pos 3600 0 0 1 0 0 = Inr \<lparr>pos_lat = 0.016667, pos_lon = 0\<rparr> \<and>
   calculate_predicted_pos 3600 0 0 1 0 0 \<noteq>
     Inr \<lparr>pos_lat = 0 + (1 * ((3600 - 0) / 3600) * cos (radians 0)) / 60,
          pos_lon = 0 + (1 * ((3600 - 0) / 3600) * sin (radians 0)) / (60 * cos (radians 0))\<rparr>"
  by (simp add: calculate_predicted_pos_def radians_def py_round_def round_half_even_def Let_def)


subsection \<open>Rounding\<close>

text \<open>
  C6, as the code has it. At 0.5 knots or more, both coordinates of a returned position
  have at most six decimals. (Below 0.5 knots the input comes back as it is.)
\<close>

theorem predicted_pos_rounded_when_moving:
  "0.5 \<le> speed \<Longrightarrow>
   calculate_predicted_pos now lat lon speed course last_seen = Inr p \<Longrightarrow>
   six_decimals (pos_lat p) \<and> six_decimals (pos_lon p)"
  by (auto simp: calculate_predicted_pos_def Let_def six_decimals_py_round split: if_splits)

theorem predicted_pos_rounded_when_moving_witness:
  "(0.5::real) \<le> 12 \<and>
   calculate_predicted_pos 1800 0 0 12 0 0 = Inr \<lparr>pos_lat = 0.1, pos_lon = 0\<rparr> \<and>
   six_decimals (pos_lat \<lparr>pos_lat = 0.1, pos_lon = 0\<rparr>) \<and>
   six_decimals (pos_lon \<lparr>pos_lat = 0.1, pos_lon = 0\<rparr>)"
proof -
  have e: "calculate_predicted_pos 1800 0 0 12 0 0 = Inr \<lparr>pos_lat = 0.1, pos_lon = 0\<rparr>"
    by (simp add: calculate_predicted_pos_def radians_def py_round_def round_half_even_def Let_def)
  from predicted_pos_rounded_when_moving [OF _ e] e show ?thesis by simp
qed


text \<open>
  Below 0.5 knots nothing is rounded: a latitude of 0.1234567 comes back with its seven
  decimals.
\<close>

theorem predicted_pos_slow_not_rounded_counterexample:
  "calculate_predicted_pos 0 0.1234567 0 0 0 0 = Inr \<lparr>pos_lat = 0.1234567, pos_lon = 0\<rparr> \<and>
   \<not> six_decimals 0.1234567"
  by (simp add: calculate_predicted_pos_def six_decimals_def)


section \<open>Anomaly aggregation: properties\<close>

subsection \<open>The loops in closed form\<close>

lemma alerts_loop_Inr:
  "alerts_loop now vs acc = Inr als \<Longrightarrow>
   map a_mmsi als = map a_mmsi acc @ map iv_mmsi vs \<and>
   map a_last_pos als = map a_last_pos acc @ map (\<lambda>v. \<lparr>pos_lat = iv_lat v, pos_lon = iv_lon v\<rparr>) vs \<and>
   map (Inr \<circ> a_predicted_pos) als = map (Inr \<circ> a_predicted_pos) acc @ map (predict now) vs"
proof (induction vs arbitrary: acc)
  case Nil
  then show ?case by simp
next
  case (Cons v vs)
  then show ?case by (auto split: sum.splits)
qed


lemma alerts_loop_returns:
  "\<forall>v \<in> set vs. iv_speed v < 0.5 \<or>
      (cos (radians (iv_lat v)) \<noteq> 0 \<and>
       (\<exists>c. as_float (case iv_course v of None \<Rightarrow> PInt 0 | Some c \<Rightarrow> c) = Inr c)) \<Longrightarrow>
   \<exists>als. alerts_loop now vs acc = Inr als"
  by (induction vs arbitrary: acc)
     (auto simp: calculate_predicted_pos_any_def calculate_predicted_pos_def Let_def)

text \<open>
  Away from the poles, and when every course that is read is a number, the aggregation
  returns a report.
\<close>

lemma get_enhanced_anomalies_returns:
  assumes "\<forall>v \<in> set vessels. iv_speed v < 0.5 \<or>
      (cos (radians (iv_lat v)) \<noteq> 0 \<and>
       (\<exists>c. as_float (case iv_course v of None \<Rightarrow> PInt 0 | Some c \<Rightarrow> c) = Inr c))"
  shows "\<exists>r. get_enhanced_anomalies now vessels = Inr r"
proof -
  from alerts_loop_returns [OF assms] obtain als where "alerts_loop now vessels [] = Inr als"
    by blast
  then show ?thesis by (simp add: get_enhanced_anomalies_def)
qed

lemma nearby_loop_eq:
  "nearby_loop i a1 ejs acc =
   acc @ map (\<lambda>(j, a2). a_mmsi a2) (filter (\<lambda>(j, a2). j \<noteq> i \<and> near a1 a2) ejs)"
  by (induction i a1 ejs acc rule: nearby_loop.induct) (auto simp: near_def)

lemma clusters_loop_eq:
  "clusters_loop als eis acc =
   acc @ map (\<lambda>(i, a1). \<lparr>center = a_last_pos a1,
                           affected_mmsi = a_mmsi a1 # nearby_loop i a1 (enumerate 0 als) [],
                           cluster_type = ''POTENTIAL_JAMMING_ZONE''\<rparr>)
           (filter (\<lambda>(i, a1). 2 \<le> length (nearby_loop i a1 (enumerate 0 als) [])) eis)"
  by (induction als eis acc rule: clusters_loop.induct) (auto simp: Let_def)

lemma enumerate_index: "enumerate 0 xs = map (\<lambda>i. (i, xs ! i)) [0..<length xs]"
  by (rule nth_equalityI) (simp_all add: nth_enumerate_eq)

lemma nearby_loop_index:
  "nearby_loop i (als ! i) (enumerate 0 als) [] = map (\<lambda>j. a_mmsi (als ! j)) (near_idx als i)"
  by (simp add: nearby_loop_eq enumerate_index filter_map comp_def near_idx_def)

lemma clusters_loop_index:
  "clusters_loop als (enumerate 0 als) [] =
   map (\<lambda>i. \<lparr>center = a_last_pos (als ! i),
              affected_mmsi = a_mmsi (als ! i) # map (\<lambda>j. a_mmsi (als ! j)) (near_idx als i),
              cluster_type = ''POTENTIAL_JAMMING_ZONE''\<rparr>)
     (filter (\<lambda>i. 2 \<le> length (near_idx als i)) [0..<length als])"
  by (simp add: clusters_loop_eq [where eis = "map (\<lambda>i. (i, als ! i)) [0..<length als]"]
        enumerate_index [of als] filter_map comp_def
        nearby_loop_index [unfolded enumerate_index])

lemma alerts_of_rows:
  assumes "alerts_loop now vs [] = Inr als"
  shows "length als = length vs"
    and "i < length vs \<Longrightarrow> a_mmsi (als ! i) = iv_mmsi (vs ! i)"
    and "i < length vs \<Longrightarrow> a_last_pos (als ! i) = \<lparr>pos_lat = iv_lat (vs ! i), pos_lon = iv_lon (vs ! i)\<rparr>"
    and "i < length vs \<Longrightarrow> predict now (vs ! i) = Inr (a_predicted_pos (als ! i))"
proof -
  from alerts_loop_Inr [OF assms]
  have m: "map a_mmsi als = map iv_mmsi vs"
    and p: "map a_last_pos als = map (\<lambda>v. \<lparr>pos_lat = iv_lat v, pos_lon = iv_lon v\<rparr>) vs"
    and q: "map (Inr \<circ> a_predicted_pos) als = map (predict now) vs"
    by simp_all
  from m show len: "length als = length vs" by (rule map_eq_imp_length_eq)
  { assume i: "i < length vs"
    have "a_mmsi (als ! i) = map a_mmsi als ! i" using i len by simp
    also have "\<dots> = iv_mmsi (vs ! i)" unfolding m using i by simp
    finally show "a_mmsi (als ! i) = iv_mmsi (vs ! i)" .
    have "a_last_pos (als ! i) = map a_last_pos als ! i" using i len by simp
    also have "\<dots> = \<lparr>pos_lat = iv_lat (vs ! i), pos_lon = iv_lon (vs ! i)\<rparr>"
      unfolding p using i by simp
    finally show "a_last_pos (als ! i) = \<lparr>pos_lat = iv_lat (vs ! i), pos_lon = iv_lon (vs ! i)\<rparr>" .
    have "Inr (a_predicted_pos (als ! i)) = map (Inr \<circ> a_predicted_pos) als ! i"
      using i len by simp
    also have "\<dots> = predict now (vs ! i)" unfolding q using i by simp
    finally show "predict now (vs ! i) = Inr (a_predicted_pos (als ! i))" by simp }
qed

lemma neighbours_of_rows:
  assumes "alerts_loop now vs [] = Inr als" "i < length vs"
  shows "near_idx als i = spec_neighbours vs i"
  unfolding spec_neighbours_def near_idx_def alerts_of_rows(1) [OF assms(1)]
  by (rule filter_cong)
     (simp_all add: near_def dist_deg_def alerts_of_rows(3) [OF assms(1)] assms(2))

lemma clusters_of_rows:
  assumes "alerts_loop now vs [] = Inr als"
  shows "clusters_loop als (enumerate 0 als) [] =
         map (spec_cluster vs) (filter (\<lambda>i. 2 \<le> length (spec_neighbours vs i)) [0..<length vs])"
proof -
  have len: "length als = length vs" by (rule alerts_of_rows(1) [OF assms])
  have f: "filter (\<lambda>i. 2 \<le> length (near_idx als i)) [0..<length vs]
         = filter (\<lambda>i. 2 \<le> length (spec_neighbours vs i)) [0..<length vs]"
    by (rule filter_cong) (simp_all add: neighbours_of_rows [OF assms])
  have g: "map (\<lambda>i. \<lparr>center = a_last_pos (als ! i),
              affected_mmsi = a_mmsi (als ! i) # map (\<lambda>j. a_mmsi (als ! j)) (near_idx als i),
              cluster_type = ''POTENTIAL_JAMMING_ZONE''\<rparr>) is
         = map (spec_cluster vs) is" if "set is \<subseteq> {..<length vs}" for "is"
  proof (rule map_cong [OF refl])
    fix i assume "i \<in> set is"
    with that have i: "i < length vs" by auto
    have js: "map (\<lambda>j. a_mmsi (als ! j)) (spec_neighbours vs i) = map (\<lambda>j. iv_mmsi (vs ! j)) (spec_neighbours vs i)"
      by (rule map_cong [OF refl]) (simp add: spec_neighbours_def alerts_of_rows(2) [OF assms])
    show "\<lparr>center = a_last_pos (als ! i),
              affected_mmsi = a_mmsi (als ! i) # map (\<lambda>j. a_mmsi (als ! j)) (near_idx als i),
              cluster_type = ''POTENTIAL_JAMMING_ZONE''\<rparr> = spec_cluster vs i"
      by (simp add: spec_cluster_def neighbours_of_rows [OF assms i] js
            alerts_of_rows(2,3) [OF assms i])
  qed
  show ?thesis
    unfolding clusters_loop_index len f
    by (rule g) auto
qed


subsection \<open>Clusters\<close>

text \<open>
  C3. In a returned report the clusters are, in row order, one cluster for each row \<open>i\<close>
  that has at least two other rows at Euclidean distance below 0.1 of its last known
  position (measured on the last known positions, in degrees), and no others. The cluster
  of \<open>i\<close> is centred at the last known position of \<open>i\<close>, lists the identifier of \<open>i\<close>
  followed by the identifiers of those rows, and carries the type
  \<open>POTENTIAL_JAMMING_ZONE\<close>. Each row is judged on its own, so a vessel is listed in
  the cluster of every centre it is near.
\<close>

theorem clusters_exactly_dense_rows:
  "get_enhanced_anomalies now vessels = Inr r \<Longrightarrow>
   clusters r = map (spec_cluster vessels)
                  (filter (\<lambda>i. 2 \<le> length (spec_neighbours vessels i)) [0..<length vessels])"
  by (auto simp: get_enhanced_anomalies_def clusters_of_rows split: if_splits sum.splits)

lemma sqrt_less_tenth: "(sqrt x * 10 < 1) = (x * 100 < 1)"
proof -
  have "sqrt (100::real) = 10"
    using real_sqrt_abs [of "10::real"] by simp
  then have "sqrt x * 10 = sqrt (x * 100)"
    by (simp add: real_sqrt_mult)
  then show ?thesis
    by (simp only: real_sqrt_lt_1_iff)
qed

lemma upt_3: "[0..<3] = [0, 1, 2]"
  by (simp add: upt_rec)

lemma test_vessels_report:
  "\<exists>r. get_enhanced_anomalies 0 [test_vessel_1, test_vessel_2, test_vessel_3] = Inr r"
  by (simp add: get_enhanced_anomalies_def calculate_predicted_pos_any_def as_float_def
      calculate_predicted_pos_def test_vessel_1_def test_vessel_2_def test_vessel_3_def
      Let_def cos_radians_pos [THEN less_imp_neq, THEN not_sym])

text \<open>
  On the three test rows, pairwise closer than 0.1: three clusters, one per centre, each
  listing all three identifiers.
\<close>

theorem clusters_exactly_dense_rows_witness:
  "\<exists>r. get_enhanced_anomalies 0 [test_vessel_1, test_vessel_2, test_vessel_3] = Inr r \<and>
     clusters r =
       [\<lparr>center = \<lparr>pos_lat = 50, pos_lon = 10\<rparr>,
         affected_mmsi = [PStr ''1'', PStr ''2'', PStr ''3''],
         cluster_type = ''POTENTIAL_JAMMING_ZONE''\<rparr>,
        \<lparr>center = \<lparr>pos_lat = 50.01, pos_lon = 10.01\<rparr>,
         affected_mmsi = [PStr ''2'', PStr ''1'', PStr ''3''],
         cluster_type = ''POTENTIAL_JAMMING_ZONE''\<rparr>,
        \<lparr>center = \<lparr>pos_lat = 50.02, pos_lon = 10.02\<rparr>,
         affected_mmsi = [PStr ''3'', PStr ''1'', PStr ''2''],
         cluster_type = ''POTENTIAL_JAMMING_ZONE''\<rparr>]"
proof -
  from test_vessels_report obtain r
    where r: "get_enhanced_anomalies 0 [test_vessel_1, test_vessel_2, test_vessel_3] = Inr r" ..
  have h: "clusters r =
       [\<lparr>center = \<lparr>pos_lat = 50, pos_lon = 10\<rparr>,
         affected_mmsi = [PStr ''1'', PStr ''2'', PStr ''3''],
         cluster_type = ''POTENTIAL_JAMMING_ZONE''\<rparr>,
        \<lparr>center = \<lparr>pos_lat = 50.01, pos_lon = 10.01\<rparr>,
         affected_mmsi = [PStr ''2'', PStr ''1'', PStr ''3''],
         cluster_type = ''POTENTIAL_JAMMING_ZONE''\<rparr>,
        \<lparr>center = \<lparr>pos_lat = 50.02, pos_lon = 10.02\<rparr>,
         affected_mmsi = [PStr ''3'', PStr ''1'', PStr ''2''],
         cluster_type = ''POTENTIAL_JAMMING_ZONE''\<rparr>]"
    unfolding clusters_exactly_dense_rows [OF r]
    by (simp add: spec_cluster_def spec_neighbours_def upt_3 sqrt_less_tenth
          test_vessel_1_def test_vessel_2_def test_vessel_3_def power2_eq_square)
  show ?thesis by (rule exI [of _ r]) (rule conjI [OF r h])
qed

subsection \<open>Rows without a course\<close>

text \<open>
  Where the course key is absent, the default 0 is used: the predicted position in the
  returned report is the one the predictor gives for course 0, and at 0.5 knots or more
  that is due north of the last known position.
\<close>

lemma absent_course_defaults_north:
  assumes "get_enhanced_anomalies now vessels = Inr r"
    and "i < length vessels"
    and "iv_course (vessels ! i) = None"
  shows "calculate_predicted_pos now (iv_lat (vessels ! i)) (iv_lon (vessels ! i))
           (iv_speed (vessels ! i)) 0 (iv_last_seen (vessels ! i)) =
           Inr (a_predicted_pos (alerts r ! i)) \<and>
         (0.5 \<le> iv_speed (vessels ! i) \<longrightarrow>
            a_predicted_pos (alerts r ! i) =
              \<lparr>pos_lat = py_round (iv_lat (vessels ! i) +
                            (iv_speed (vessels ! i) * ((now - iv_last_seen (vessels ! i)) / 3600)) / 60) 6,
               pos_lon = py_round (iv_lon (vessels ! i)) 6\<rparr>)"
proof -
  from assms(1,2) obtain als where als: "alerts_loop now vessels [] = Inr als" and r: "alerts r = als"
    by (auto simp: get_enhanced_anomalies_def split: if_splits sum.splits)
  have "calculate_predicted_pos_any now (iv_lat (vessels ! i)) (iv_lon (vessels ! i))
           (iv_speed (vessels ! i)) (PInt 0) (iv_last_seen (vessels ! i)) =
           Inr (a_predicted_pos (alerts r ! i))"
    using alerts_of_rows(4) [OF als assms(2)] assms(3) r by simp
  then have p: "calculate_predicted_pos now (iv_lat (vessels ! i)) (iv_lon (vessels ! i))
           (iv_speed (vessels ! i)) 0 (iv_last_seen (vessels ! i)) =
           Inr (a_predicted_pos (alerts r ! i))"
    by (simp add: calculate_predicted_pos_any_def as_float_def calculate_predicted_pos_def
          split: if_splits)
  then have "a_predicted_pos (alerts r ! i) =
              \<lparr>pos_lat = py_round (iv_lat (vessels ! i) +
                            (iv_speed (vessels ! i) * ((now - iv_last_seen (vessels ! i)) / 3600)) / 60) 6,
               pos_lon = py_round (iv_lon (vessels ! i)) 6\<rparr>"
    if "0.5 \<le> iv_speed (vessels ! i)"
    using that by (simp add: calculate_predicted_pos_def Let_def radians_0 split: if_splits)
  with p show ?thesis by blast
qed

lemma absent_course_example:
  "\<exists>r. get_enhanced_anomalies 3600 [dark_vessel] = Inr r \<and>
       a_predicted_pos (alerts r ! 0) = \<lparr>pos_lat = 60.333333, pos_lon = 10\<rparr>"
proof -
  have "\<exists>r. get_enhanced_anomalies 3600 [dark_vessel] = Inr r"
    by (simp add: get_enhanced_anomalies_def calculate_predicted_pos_any_def as_float_def
      calculate_predicted_pos_def dark_vessel_def
      Let_def cos_radians_pos [THEN less_imp_neq, THEN not_sym])
  then obtain r where r: "get_enhanced_anomalies 3600 [dark_vessel] = Inr r" ..
  have c: "iv_course ([dark_vessel] ! 0) = None" by (simp add: dark_vessel_def)
  have h: "a_predicted_pos (alerts r ! 0) = \<lparr>pos_lat = 60.333333, pos_lon = 10\<rparr>"
    using absent_course_defaults_north [OF r _ c]
    by (simp add: dark_vessel_def py_round_def round_half_even_def Let_def)
  show ?thesis by (rule exI [of _ r]) (rule conjI [OF r h])
qed

text \<open>
  Where the course key is present and holds \<^verbatim>\<open>None\<close>, \<^verbatim>\<open>v.get('course', 0)\<close> gives
  \<^verbatim>\<open>None\<close>, not the default. Below 0.5 knots the course is not read; at 0.5 knots or
  more the predictor raises TypeError and no report is returned, whatever the other rows
  are.
\<close>

lemma alerts_loop_null_course:
  "v \<in> set vs \<Longrightarrow> iv_course v = Some PNone \<Longrightarrow> 0.5 \<le> iv_speed v \<Longrightarrow>
   \<exists>e. alerts_loop now vs acc = Inl e"
proof (induction vs arbitrary: acc)
  case Nil
  then show ?case by simp
next
  case (Cons w ws)
  show ?case
  proof (cases "predict now w")
    case (Inl e)
    then show ?thesis by simp
  next
    case (Inr p)
    then have "w \<noteq> v"
      using Cons.prems(2,3) by (auto simp: calculate_predicted_pos_any_def as_float_def)
    then have "v \<in> set ws" using Cons.prems(1) by simp
    then show ?thesis using Cons.IH Cons.prems(2,3) Inr by simp
  qed
qed

lemma null_course_no_report:
  assumes "v \<in> set vessels" and "iv_course v = Some PNone" and "0.5 \<le> iv_speed v"
  shows "\<exists>e. get_enhanced_anomalies now vessels = Inl e"
proof -
  from alerts_loop_null_course [OF assms] obtain e where "alerts_loop now vessels [] = Inl e"
    by blast
  moreover have "vessels \<noteq> []" using assms(1) by auto
  ultimately show ?thesis by (simp add: get_enhanced_anomalies_def)
qed

text \<open>
  C10, at a row whose course is \<^verbatim>\<open>None\<close>. The row lacks a course value and moves at
  20 knots; the aggregation does not predict it due north with course 0, it raises
  TypeError.
\<close>

theorem null_course_raises_type_error:
  "iv_course null_course_vessel = Some PNone \<and>
   iv_speed null_course_vessel = 20 \<and>
   get_enhanced_anomalies 3600 [null_course_vessel] = Inl TypeError"
  by (simp add: get_enhanced_anomalies_def calculate_predicted_pos_any_def as_float_def
        null_course_vessel_def)


section \<open>Broadcast hub: properties\<close>

lemma gather_delivered:
  "delivered (gather send_text m tasks data) =
   delivered m @ map (\<lambda>c. (c, data)) (filter (\<lambda>c. send_text c data = None) tasks)"
  by (induction tasks arbitrary: m)
     (auto simp: send_safe_def disconnect_def split: option.splits)

lemma gather_active:
  "active_connections m = pre @ tasks \<Longrightarrow> \<forall>p \<in> set pre. send_text p data = None \<Longrightarrow>
   active_connections (gather send_text m tasks data) =
   pre @ filter (\<lambda>c. send_text c data = None) tasks"
proof (induction tasks arbitrary: m pre)
  case Nil
  then show ?case by simp
next
  case (Cons c tasks)
  show ?case
  proof (cases "send_text c data")
    case None
    have "active_connections (send_safe send_text m c data) = (pre @ [c]) @ tasks"
      using Cons.prems(1) None by (simp add: send_safe_def)
    moreover have "\<forall>p \<in> set (pre @ [c]). send_text p data = None"
      using Cons.prems(2) None by simp
    ultimately have "active_connections (gather send_text (send_safe send_text m c data) tasks data) =
      (pre @ [c]) @ filter (\<lambda>c. send_text c data = None) tasks"
      by (rule Cons.IH)
    with None show ?thesis by simp
  next
    case (Some e)
    then have "c \<notin> set pre" using Cons.prems(2) by auto
    then have "active_connections (send_safe send_text m c data) = pre @ tasks"
      using Cons.prems(1) Some by (simp add: send_safe_def disconnect_def remove1_append)
    then have "active_connections (gather send_text (send_safe send_text m c data) tasks data) =
      pre @ filter (\<lambda>c. send_text c data = None) tasks"
      using Cons.prems(2) by (rule Cons.IH)
    with Some show ?thesis by simp
  qed
qed

text \<open>
  C7. When the message serializes and, among the distinct registered connections, the
  send fails on exactly one connection \<open>c\<close>, \<open>broadcast\<close> returns without an
  exception, the connection list afterwards is the one before without \<open>c\<close> (one entry
  shorter), and the serialized message has been delivered to every other connection.
\<close>

theorem broadcast_one_failure:
  assumes "distinct (active_connections m)"
    and "c \<in> set (active_connections m)"
    and "send_text c data \<noteq> None"
    and "\<forall>d \<in> set (active_connections m). d \<noteq> c \<longrightarrow> send_text d data = None"
    and "dumps message = Inr data"
  shows "\<exists>m'. broadcast send_text dumps m message = Inr m' \<and>
           active_connections m' = remove1 c (active_connections m) \<and>
           set (active_connections m') = set (active_connections m) - {c} \<and>
           delivered m' = delivered m @ map (\<lambda>d. (d, data)) (remove1 c (active_connections m)) \<and>
           length (active_connections m') = length (active_connections m) - 1"
proof -
  let ?ok = "\<lambda>d. send_text d data = None"
  let ?m' = "gather send_text m (active_connections m) data"
  have ne: "active_connections m \<noteq> []" using assms(2) by auto
  have b: "broadcast send_text dumps m message = Inr ?m'"
    using ne assms(5) by (simp add: broadcast_def)
  have f: "filter ?ok (active_connections m) = remove1 c (active_connections m)"
  proof -
    have "filter ?ok (active_connections m) = filter (\<lambda>d. c \<noteq> d) (active_connections m)"
      using assms(3,4) by (intro filter_cong) auto
    also have "\<dots> = remove1 c (active_connections m)"
      using assms(1) by (simp add: distinct_remove1_removeAll removeAll_filter_not_eq) 
    finally show ?thesis .
  qed
  have a: "active_connections ?m' = remove1 c (active_connections m)"
    using gather_active [of m "[]" "active_connections m" send_text data] f by simp
  have d: "delivered ?m' = delivered m @ map (\<lambda>d. (d, data)) (remove1 c (active_connections m))"
    by (simp add: gather_delivered f)
  have s: "set (active_connections ?m') = set (active_connections m) - {c}"
    using a assms(1) by simp
  have l: "length (active_connections ?m') = length (active_connections m) - 1"
    using a assms(2) by (simp add: length_remove1)
  from b a s d l show ?thesis by blast
qed

theorem broadcast_one_failure_witness:
  "\<exists>m'. broadcast (\<lambda>c t. if c = (2::nat) then Some SendError else None) (\<lambda>msg. Inr msg)
           \<lparr>active_connections = [1, 2, 3], delivered = [], manager_log = []\<rparr> ''{}'' = Inr m' \<and>
         active_connections m' = [1, 3] \<and> delivered m' = [(1, ''{}''), (3, ''{}'')]"
  using broadcast_one_failure [of "\<lparr>active_connections = [1, 2, 3], delivered = [], manager_log = []\<rparr>"
      "2::nat" "\<lambda>c t. if c = (2::nat) then Some SendError else None" "''{}''" "\<lambda>msg. Inr msg" "''{}''"]
  by auto


section \<open>Repository: properties\<close>

lemma upsert_other: "vd_mmsi v \<noteq> k \<Longrightarrow> upsert_vessel now table v k = table k"
  by (simp add: upsert_vessel_def split: option.splits)

lemma upsert_existing:
  "table (vd_mmsi v) = Some old \<Longrightarrow>
   upsert_vessel now table v (vd_mmsi v) =
     Some (old\<lparr>row_last_pos := (vd_lon v, vd_lat v), row_speed := vd_speed v,
               row_course := vd_course v, row_last_seen := now\<rparr>)"
  by (simp add: upsert_vessel_def)

lemma foldl_upsert_existing:
  "table k = Some old \<Longrightarrow>
   foldl (upsert_vessel now) table batch k =
     Some (if filter (\<lambda>v. vd_mmsi v = k) batch = [] then old
           else old\<lparr>row_last_pos := (vd_lon (last (filter (\<lambda>v. vd_mmsi v = k) batch)),
                                     vd_lat (last (filter (\<lambda>v. vd_mmsi v = k) batch))),
                    row_speed := vd_speed (last (filter (\<lambda>v. vd_mmsi v = k) batch)),
                    row_course := vd_course (last (filter (\<lambda>v. vd_mmsi v = k) batch)),
                    row_last_seen := now\<rparr>)"
proof (induction batch rule: rev_induct)
  case Nil
  then show ?case by simp
next
  case (snoc x xs)
  show ?case
  proof (cases "vd_mmsi x = k")
    case True
    from snoc obtain o' where o': "foldl (upsert_vessel now) table xs k = Some o'"
      and n: "row_name o' = row_name old" and t: "row_type o' = row_type old"
      by (auto split: if_splits)
    have "foldl (upsert_vessel now) table (xs @ [x]) k =
          Some (o'\<lparr>row_last_pos := (vd_lon x, vd_lat x), row_speed := vd_speed x,
               row_course := vd_course x, row_last_seen := now\<rparr>)"
      using upsert_existing [of "foldl (upsert_vessel now) table xs" x o' now] o' True by simp
    also have "o'\<lparr>row_last_pos := (vd_lon x, vd_lat x), row_speed := vd_speed x,
               row_course := vd_course x, row_last_seen := now\<rparr> =
               old\<lparr>row_last_pos := (vd_lon x, vd_lat x), row_speed := vd_speed x,
               row_course := vd_course x, row_last_seen := now\<rparr>"
      using n t by (cases o', cases old) simp
    finally show ?thesis using True by simp
  next
    case False
    then show ?thesis using snoc by (simp add: upsert_other)
  qed
qed

text \<open>
  C2, as the code has it. For a vessel that already has a row and is reported in the
  batch, the batch upsert replaces the position, the speed and the course of the row by
  those of the vessel's last report in the batch and sets the last-seen time to the
  current time; the stored name and type stay.
\<close>

theorem upsert_keeps_name_and_type:
  assumes "table k = Some old"
    and "filter (\<lambda>v. vd_mmsi v = k) vessels_list \<noteq> []"
  shows "update_vessels_batch now table vessels_list k =
           Some (old\<lparr>row_last_pos := (vd_lon (last (filter (\<lambda>v. vd_mmsi v = k) vessels_list)),
                                      vd_lat (last (filter (\<lambda>v. vd_mmsi v = k) vessels_list))),
                     row_speed := vd_speed (last (filter (\<lambda>v. vd_mmsi v = k) vessels_list)),
                     row_course := vd_course (last (filter (\<lambda>v. vd_mmsi v = k) vessels_list)),
                     row_last_seen := now\<rparr>)"
proof -
  from assms(2) have "vessels_list \<noteq> []" by auto
  then show ?thesis
    using foldl_upsert_existing [where table = table and k = k and old = old and now = now
        and batch = vessels_list] assms
    by (simp add: update_vessels_batch_def)
qed

theorem upsert_keeps_name_and_type_witness:
  "update_vessels_batch 100 [PInt 257000000 \<mapsto> stored_row] [new_report, new_report\<lparr>vd_speed := PFloat 6\<rparr>]
     (PInt 257000000) =
     Some \<lparr>row_name = ''OLD NAME'', row_last_pos = (PFloat 11, PFloat 61), row_speed = PFloat 6,
           row_course = PFloat 90, row_type = PStr ''PositionReport'', row_last_seen = 100\<rparr>"
  using upsert_keeps_name_and_type [of "[PInt 257000000 \<mapsto> stored_row]" "PInt 257000000" stored_row
      "[new_report, new_report\<lparr>vd_speed := PFloat 6\<rparr>]" 100]
  by (simp add: stored_row_def new_report_def)


text \<open>
  The name and the type of the new report do not reach an existing row.
\<close>

theorem upsert_overwrites_name_counterexample:
  "update_vessels_batch 100 [PInt 257000000 \<mapsto> stored_row] [new_report] (PInt 257000000) =
     Some \<lparr>row_name = ''OLD NAME'', row_last_pos = (PFloat 11, PFloat 61), row_speed = PFloat 5,
           row_course = PFloat 90, row_type = PStr ''PositionReport'', row_last_seen = 100\<rparr> \<and>
   ''OLD NAME'' \<noteq> vd_name new_report \<and> PStr ''PositionReport'' \<noteq> vd_vessel_type new_report"
  by (simp add: update_vessels_batch_def upsert_vessel_def stored_row_def new_report_def)


section \<open>Feed client: properties\<close>

subsection \<open>Producer\<close>

lemma enqueue_guard: "\<not> truthy (vd_mmsi vd) \<or> vd_lat vd = PNone \<Longrightarrow> enqueue vd st = st"
  by (auto simp: enqueue_def)

text \<open>
  C8. A message whose report passes the guard, arriving while the queue holds 5000
  entries, leaves the queue as it is and adds the data-loss warning to the log; the
  producer goes on without an exception.
\<close>

theorem full_queue_drops_report:
  assumes "normalize msg = Inr vd"
    and "truthy (vd_mmsi vd)" and "vd_lat vd \<noteq> PNone"
    and "length (queue st) = 5000"
  shows "on_message msg st =
           Inr (st\<lparr>logger := logger st @ [Warning ''Processing queue full! Data loss may occur.'']\<rparr>)"
  using assms by (simp add: on_message_def enqueue_def put_nowait_def maxsize_def)


lemma normalize_feed_message: "normalize feed_message = Inr feed_report"
  by (simp add: normalize_def feed_message_def feed_report_def get_def or_else_def strip_def
        is_space_def)

theorem full_queue_drops_report_witness:
  "on_message feed_message
     \<lparr>queue = replicate 5000 feed_report, buffer = [], total_processed = 0, trace = [], logger = []\<rparr> =
   Inr \<lparr>queue = replicate 5000 feed_report, buffer = [], total_processed = 0, trace = [],
        logger = [Warning ''Processing queue full! Data loss may occur.'']\<rparr>"
  using full_queue_drops_report [OF normalize_feed_message, of
     "\<lparr>queue = replicate 5000 feed_report, buffer = [], total_processed = 0, trace = [], logger = []\<rparr>"]
  by (simp add: feed_report_def)


text \<open>
  C1, at a message without longitude. The guard tests the identifier and the latitude
  only: the report enters the queue with longitude \<^verbatim>\<open>None\<close>, and the consumer's next
  flush checks it against the geofences, broadcasts it in \<open>VESSEL_UPDATE\<close> and hands it
  to the batch upsert.
\<close>

theorem report_without_longitude_is_processed:
  "normalize message_without_longitude = Inr report_without_longitude \<and>
   vd_lon report_without_longitude = PNone \<and>
   on_message message_without_longitude idle = Inr (idle\<lparr>queue := [report_without_longitude]\<rparr>) \<and>
   trace (db_writer_iteration (\<lambda>la lo. Inr None) (\<lambda>b. None)
           (db_writer_iteration (\<lambda>la lo. Inr None) (\<lambda>b. None)
              (idle\<lparr>queue := [report_without_longitude]\<rparr>))) =
     [CheckGeofence (PFloat 60) PNone,
      Broadcast (VESSEL_UPDATE [report_without_longitude]),
      UpdateVesselsBatch [report_without_longitude]]"
proof -
  have n: "normalize message_without_longitude = Inr report_without_longitude"
    by (simp add: normalize_def message_without_longitude_def report_without_longitude_def
          get_def or_else_def strip_def is_space_def)
  have l: "vd_lon report_without_longitude = PNone"
    by (simp add: report_without_longitude_def)
  have o: "on_message message_without_longitude idle = Inr (idle\<lparr>queue := [report_without_longitude]\<rparr>)"
    by (simp add: on_message_def n enqueue_def put_nowait_def maxsize_def idle_def)
       (simp add: report_without_longitude_def)
  have t: "trace (db_writer_iteration (\<lambda>la lo. Inr None) (\<lambda>b. None)
           (db_writer_iteration (\<lambda>la lo. Inr None) (\<lambda>b. None)
              (idle\<lparr>queue := [report_without_longitude]\<rparr>))) =
     [CheckGeofence (PFloat 60) PNone,
      Broadcast (VESSEL_UPDATE [report_without_longitude]),
      UpdateVesselsBatch [report_without_longitude]]"
    by (simp add: db_writer_iteration_def flush_def process_and_flush_def batch_size_def idle_def
          check_geofence_violation_def Let_def l)
       (simp add: report_without_longitude_def)
  from n l o t show ?thesis by (intro conjI)
qed


subsection \<open>Consumer\<close>

lemma geofence_loop_eq:
  "geofence_loop cpg batch tr =
   tr @ concat (map (\<lambda>v. CheckGeofence (vd_lat v) (vd_lon v) #
                      (case check_geofence_violation cpg (vd_lat v) (vd_lon v) of
                         None \<Rightarrow> []
                       | Some z \<Rightarrow> [Broadcast (ALERT z (vd_name v))])) batch)"
  by (induction batch arbitrary: tr) (auto simp: Let_def split: option.splits)

text \<open>
  C9. The calls issued for one batch are, in this order: for each report in batch order
  its geofence check, followed by its ALERT broadcast when the check finds a zone; then
  one VESSEL_UPDATE broadcast with the whole batch; then one call of the batch upsert
  with the whole batch.
\<close>

theorem process_and_flush_order:
  "fst (process_and_flush cpg persist vessel_batch tr) =
   tr @ concat (map (\<lambda>v. CheckGeofence (vd_lat v) (vd_lon v) #
                      (case check_geofence_violation cpg (vd_lat v) (vd_lon v) of
                         None \<Rightarrow> []
                       | Some z \<Rightarrow> [Broadcast (ALERT z (vd_name v))])) vessel_batch)
      @ [Broadcast (VESSEL_UPDATE vessel_batch), UpdateVesselsBatch vessel_batch]"
  by (simp add: process_and_flush_def geofence_loop_eq Let_def)


end
